theory Spec2Isabelle
  imports Complex_Main "HOL-Library.Word"
begin

section \<open>Shared vocabulary: errors, networks, strings\<close>

text \<open>
  Every exception the modelled code can raise is a value. \<open>ValueError\<close> carries which of
  the \<^verbatim>\<open>ValueError\<close>s of the sources it is; \<open>WalletGenerationException\<close>
  carries what its message is built from.
\<close>

datatype network_type = ETHEREUM | TRON | BITCOIN

datatype value_error =
    DocumentTooLarge
  | NotAValidNetworkType string
  | NotAValidVerificationStatus string
  | InvalidAddressFormat network_type

datatype error =
    ValueError value_error
  | TypeError
  | AttributeError
  | ValidationError
  | IntegrityError
  | MultipleResultsFound
  | LibraryError string
  | WalletAlreadyExistsException
  | WalletGenerationException wallet_generation_detail
and wallet_generation_detail =
    GeneratedInvalidAddress string
  | FailedToGenerateWallet error

text \<open>
  \<^verbatim>\<open>class NetworkType(str, Enum)\<close> in both services: the member's value, and the
  lookup by value \<^verbatim>\<open>NetworkType(s)\<close>, which raises \<^verbatim>\<open>ValueError\<close> for any other string.
\<close>

fun network_value :: "network_type \<Rightarrow> string" where
  "network_value ETHEREUM = ''ethereum''"
| "network_value TRON = ''tron''"
| "network_value BITCOIN = ''bitcoin''"

definition NetworkType :: "string \<Rightarrow> error + network_type" where
  "NetworkType s =
     (if s = ''ethereum'' then Inr ETHEREUM
      else if s = ''tron'' then Inr TRON
      else if s = ''bitcoin'' then Inr BITCOIN
      else Inl (ValueError (NotAValidNetworkType s)))"

text \<open>\<^verbatim>\<open>str.lower()\<close> on the ASCII letters; every other character is kept.\<close>

definition lower_char :: "char \<Rightarrow> char" where
  "lower_char c =
     (case map_of (zip ''ABCDEFGHIJKLMNOPQRSTUVWXYZ'' ''abcdefghijklmnopqrstuvwxyz'') c of
        Some d \<Rightarrow> d
      | None \<Rightarrow> c)"

definition lower :: "string \<Rightarrow> string" where
  "lower s = map lower_char s"

text \<open>\<^verbatim>\<open>str(i)\<close> for an integer, as an f-string prints it.\<close>

fun str_nat :: "nat \<Rightarrow> string" where
  "str_nat n =
     (if n < 10 then [''0123456789'' ! n]
      else str_nat (n div 10) @ [''0123456789'' ! (n mod 10)])"

declare str_nat.simps [simp del]

definition str_int :: "int \<Rightarrow> string" where
  "str_int i = (if i < 0 then CHR ''-'' # str_nat (nat (- i)) else str_nat (nat i))"

text \<open>
  A \<^verbatim>\<open>datetime\<close> is carried as the text \<^verbatim>\<open>str()\<close> prints for it, which is all the
  modelled code reads of it. A UUID is a number. Bytes are 8-bit words.
\<close>

datatype datetime = Datetime string

fun str_datetime :: "datetime \<Rightarrow> string" where
  "str_datetime (Datetime s) = s"

type_synonym uuid = nat

type_synonym bytes = "8 word list"

section \<open>Wallet service: settings and the in-memory cache\<close>

text \<open>
  \<^verbatim>\<open>wallet_service/core/config.py\<close>: the options of \<^verbatim>\<open>Settings\<close> that the modelled
  code reads. \<^verbatim>\<open>decrypted_mnemonic\<close> is the mnemonic the generators receive.
\<close>

record settings =
  cache_key_prefix :: string
  cache_ttl_seconds :: int
  decrypted_mnemonic :: string

text \<open>
  \<^verbatim>\<open>wallet_service/infrastructure/cache/cache_service.py\<close>. The store is the dict
  \<^verbatim>\<open>_store: dict[str, tuple[float, Any]]\<close>, a map from the prefixed key to the pair
  (expiry, value). \<^verbatim>\<open>time.time()\<close> is an argument \<open>now\<close>; the floats are read as
  reals. A value of type \<open>'v\<close> is a stored object other than \<^verbatim>\<open>None\<close>, and the result
  \<open>None\<close> of \<open>cache_get\<close> is Python's \<^verbatim>\<open>None\<close>.
\<close>

type_synonym 'v store = "string \<rightharpoonup> (real \<times> 'v)"

definition prefixed :: "settings \<Rightarrow> string \<Rightarrow> string" where
  "prefixed cfg key = cache_key_prefix cfg @ key"

text \<open>
  \<^verbatim>\<open>
  entry = self._store.get(full_key)
  if not entry: return None
  expiry, value = entry
  if expiry and expiry < time.time():
      del self._store[full_key]
      return None
  return value
  \<close>
  An entry is a pair, so \<^verbatim>\<open>not entry\<close> holds only for a missing key; \<^verbatim>\<open>expiry\<close> is
  truthy when it is not zero.
\<close>

definition cache_get :: "settings \<Rightarrow> real \<Rightarrow> string \<Rightarrow> 'v store \<Rightarrow> 'v option \<times> 'v store" where
  "cache_get cfg now key st =
     (let full_key = prefixed cfg key in
      case st full_key of
        None \<Rightarrow> (None, st)
      | Some (expiry, v) \<Rightarrow>
          if expiry \<noteq> 0 \<and> expiry < now then (None, st(full_key := None))
          else (Some v, st))"

text \<open>
  \<^verbatim>\<open>
  ttl = ttl or self.settings.cache_ttl_seconds
  expiry = time.time() + ttl if ttl else 0
  self._store[full_key] = (expiry, value)
  \<close>
  The argument \<open>ttl\<close> is \<open>None\<close> when the caller leaves it out; \<^verbatim>\<open>ttl or ...\<close> takes
  the default for \<^verbatim>\<open>None\<close> and for 0.
\<close>

definition cache_set :: "settings \<Rightarrow> real \<Rightarrow> string \<Rightarrow> 'v \<Rightarrow> int option \<Rightarrow> 'v store \<Rightarrow> 'v store" where
  "cache_set cfg now key v ttl st =
     (let ttl1 = (case ttl of
                    None \<Rightarrow> cache_ttl_seconds cfg
                  | Some t \<Rightarrow> if t \<noteq> 0 then t else cache_ttl_seconds cfg);
          expiry = (if ttl1 \<noteq> 0 then now + real_of_int ttl1 else 0)
      in st(prefixed cfg key \<mapsto> (expiry, v)))"

definition cache_delete :: "settings \<Rightarrow> string \<Rightarrow> 'v store \<Rightarrow> 'v store" where
  "cache_delete cfg key st = st(prefixed cfg key := None)"

section \<open>Wallet service: the domain model\<close>

text \<open>
  \<^verbatim>\<open>wallet_service/domain/models/wallet.py\<close>. The dataclass \<^verbatim>\<open>Wallet\<close>; the private
  fields \<^verbatim>\<open>_address_checksum\<close> and \<^verbatim>\<open>_derivation_path\<close> are never read and are left
  out.
\<close>

record wallet =
  w_user_id :: string
  w_network :: network_type
  w_wallet_address :: string
  w_derivation_index :: int
  w_id :: "uuid option"
  w_created_at :: datetime
  w_last_accessed_at :: "datetime option"

text \<open>
  The three validators of \<^verbatim>\<open>Wallet\<close>:
  \<^verbatim>\<open>
  startswith("0x") and len(self.wallet_address) == 42
  startswith("T") and len(self.wallet_address) == 34
  26 <= len(self.wallet_address) <= 35
  \<close>
  \<^verbatim>\<open>s.startswith(p)\<close> is \<open>take (length p) s = p\<close>.
\<close>

definition validate_ethereum_address :: "string \<Rightarrow> bool" where
  "validate_ethereum_address a = (take 2 a = ''0x'' \<and> length a = 42)"

definition validate_tron_address :: "string \<Rightarrow> bool" where
  "validate_tron_address a = (take 1 a = ''T'' \<and> length a = 34)"

definition validate_bitcoin_address :: "string \<Rightarrow> bool" where
  "validate_bitcoin_address a = (26 \<le> length a \<and> length a \<le> 35)"

text \<open>
  \<^verbatim>\<open>_validate_address\<close>: the validator is looked up by network (every member of the
  enum has one) and \<^verbatim>\<open>ValueError\<close> is raised when it returns false.
\<close>

fun Wallet_validate_address :: "network_type \<Rightarrow> string \<Rightarrow> error + unit" where
  "Wallet_validate_address ETHEREUM a =
     (if \<not> validate_ethereum_address a then Inl (ValueError (InvalidAddressFormat ETHEREUM)) else Inr ())"
| "Wallet_validate_address TRON a =
     (if \<not> validate_tron_address a then Inl (ValueError (InvalidAddressFormat TRON)) else Inr ())"
| "Wallet_validate_address BITCOIN a =
     (if \<not> validate_bitcoin_address a then Inl (ValueError (InvalidAddressFormat BITCOIN)) else Inr ())"

text \<open>
  The constructor \<^verbatim>\<open>Wallet(user_id=, network=, wallet_address=, derivation_index=)\<close>
  with \<^verbatim>\<open>__post_init__\<close>; \<open>created\<close> is what \<^verbatim>\<open>datetime.now\<close> returns for
  \<^verbatim>\<open>created_at\<close>.
\<close>

definition Wallet :: "string \<Rightarrow> network_type \<Rightarrow> string \<Rightarrow> int \<Rightarrow> datetime \<Rightarrow> error + wallet" where
  "Wallet user_id network address derivation_index created =
     (case Wallet_validate_address network address of
        Inl e \<Rightarrow> Inl e
      | Inr _ \<Rightarrow>
          Inr \<lparr>w_user_id = user_id, w_network = network, w_wallet_address = address,
               w_derivation_index = derivation_index, w_id = None, w_created_at = created,
               w_last_accessed_at = None\<rparr>)"

text \<open>
  The address rule of the specification for ETHEREUM, as far as it needs no hashing:
  "0x" followed by 40 hex characters. It is compared with what the constructor checks.
\<close>

definition is_hex_char :: "char \<Rightarrow> bool" where
  "is_hex_char c = (c \<in> set ''0123456789abcdefABCDEF'')"

definition spec_ethereum_hex_rule :: "string \<Rightarrow> bool" where
  "spec_ethereum_hex_rule a =
     (take 2 a = ''0x'' \<and> length (drop 2 a) = 40 \<and> list_all is_hex_char (drop 2 a))"

section \<open>Wallet service: the repository\<close>

text \<open>
  \<^verbatim>\<open>wallet_service/infrastructure/database/models.py\<close>: a row of the table
  \<^verbatim>\<open>wallets\<close>. The table is the list of its rows; \<^verbatim>\<open>id\<close> is the primary key and
  \<^verbatim>\<open>wallet_address\<close> is declared \<^verbatim>\<open>unique=True\<close>.
\<close>

record wallet_model =
  m_id :: uuid
  m_user_id :: string
  m_network :: string
  m_wallet_address :: string
  m_derivation_index :: int
  m_created_at :: datetime
  m_last_accessed_at :: "datetime option"

text \<open>\<^verbatim>\<open>WalletRepository._to_domain\<close>: it builds a \<^verbatim>\<open>Wallet\<close>, so it validates again.\<close>

definition to_domain :: "wallet_model \<Rightarrow> error + wallet" where
  "to_domain db_wallet =
     (case NetworkType (m_network db_wallet) of
        Inl e \<Rightarrow> Inl e
      | Inr nt \<Rightarrow>
          (case Wallet (m_user_id db_wallet) nt (m_wallet_address db_wallet)
                  (m_derivation_index db_wallet) (m_created_at db_wallet) of
             Inl e \<Rightarrow> Inl e
           | Inr w \<Rightarrow>
               Inr (w\<lparr>w_id := Some (m_id db_wallet), w_created_at := m_created_at db_wallet,
                       w_last_accessed_at := m_last_accessed_at db_wallet\<rparr>)))"

text \<open>
  \<^verbatim>\<open>get_by_user_and_network\<close>: \<^verbatim>\<open>scalar_one_or_none()\<close> raises when more than one row
  matches.
\<close>

definition get_by_user_and_network :: "string \<Rightarrow> string \<Rightarrow> wallet_model list \<Rightarrow> error + wallet option" where
  "get_by_user_and_network user_id network rows =
     (case filter (\<lambda>r. m_user_id r = user_id \<and> m_network r = network) rows of
        [] \<Rightarrow> Inr None
      | [db_wallet] \<Rightarrow> (case to_domain db_wallet of Inl e \<Rightarrow> Inl e | Inr w \<Rightarrow> Inr (Some w))
      | _ \<Rightarrow> Inl MultipleResultsFound)"

text \<open>
  \<^verbatim>\<open>get_next_derivation_index\<close>:
  \<^verbatim>\<open>select(func.max(derivation_index)).where(network == network)\<close>, then
  \<^verbatim>\<open>0 if max_index is None else max_index + 1\<close>.
\<close>

definition get_next_derivation_index :: "string \<Rightarrow> wallet_model list \<Rightarrow> int" where
  "get_next_derivation_index network rows =
     (case map m_derivation_index (filter (\<lambda>r. m_network r = network) rows) of
        [] \<Rightarrow> 0
      | x # xs \<Rightarrow> fold max xs x + 1)"

text \<open>
  \<^verbatim>\<open>create\<close>: the row is added and flushed; the flush raises \<^verbatim>\<open>IntegrityError\<close> when the
  primary key or the unique \<^verbatim>\<open>wallet_address\<close> is already in the table. \<open>new_id\<close> is the
  \<^verbatim>\<open>uuid4()\<close> default of the row.
\<close>

definition create :: "uuid \<Rightarrow> wallet \<Rightarrow> wallet_model list \<Rightarrow> error + (wallet \<times> wallet_model list)" where
  "create new_id w rows =
     (if list_ex (\<lambda>r. m_id r = new_id \<or> m_wallet_address r = w_wallet_address w) rows
      then Inl IntegrityError
      else Inr (w\<lparr>w_id := Some new_id\<rparr>,
                rows @ [\<lparr>m_id = new_id, m_user_id = w_user_id w,
                          m_network = network_value (w_network w),
                          m_wallet_address = w_wallet_address w,
                          m_derivation_index = w_derivation_index w,
                          m_created_at = w_created_at w, m_last_accessed_at = None\<rparr>]))"

section \<open>Wallet service: the generators\<close>

text \<open>
  \<^verbatim>\<open>wallet_service/infrastructure/crypto/generators/base.py\<close>. The state of a
  generator object is its \<^verbatim>\<open>base_derivation_path\<close> and the dict \<^verbatim>\<open>_path_cache\<close>.
\<close>

record generator =
  base_derivation_path :: string
  path_cache :: "int \<rightharpoonup> string"

definition BaseWalletGenerator :: "string \<Rightarrow> generator" where
  "BaseWalletGenerator base = \<lparr>base_derivation_path = base, path_cache = Map.empty\<rparr>"

text \<open>
  \<^verbatim>\<open>
  if index not in self._path_cache:
      self._path_cache[index] = f"{self.base_derivation_path}/{index}"
  return self._path_cache[index]
  \<close>
\<close>

definition get_derivation_path :: "generator \<Rightarrow> int \<Rightarrow> string \<times> generator" where
  "get_derivation_path g index =
     (case path_cache g index of
        Some path \<Rightarrow> (path, g)
      | None \<Rightarrow>
          (let path = base_derivation_path g @ ''/'' @ str_int index
           in (path, g\<lparr>path_cache := (path_cache g)(index \<mapsto> path)\<rparr>)))"

text \<open>
  What a concrete generator class supplies: the library call \<^verbatim>\<open>Mnemonic.to_seed\<close> and
  the two abstract methods \<^verbatim>\<open>generate_address\<close> and \<^verbatim>\<open>validate_address\<close>. They are
  functions of their arguments; a library exception is an \<open>Inl\<close>.
\<close>

record generator_class =
  to_seed :: "string \<Rightarrow> string \<Rightarrow> error + bytes"
  generate_address :: "bytes \<Rightarrow> string \<Rightarrow> error + string"
  validate_address :: "string \<Rightarrow> error + bool"

text \<open>\<^verbatim>\<open>_derive_seed\<close>: the passphrase is \<^verbatim>\<open>f"wallet-service:{user_id}"\<close>.\<close>

definition derive_seed :: "generator_class \<Rightarrow> string \<Rightarrow> string \<Rightarrow> error + bytes" where
  "derive_seed cls mnemonic user_id = to_seed cls mnemonic (''wallet-service:'' @ user_id)"

text \<open>
  \<^verbatim>\<open>
  seed = await self._derive_seed(mnemonic, user_id)
  path = self.get_derivation_path(derivation_index)
  address = await self.generate_address(seed, path)
  if not await self.validate_address(address):
      raise WalletGenerationException(f"Generated invalid address: {address}")
  return address
  \<close>
\<close>

definition generate ::
  "generator_class \<Rightarrow> generator \<Rightarrow> string \<Rightarrow> string \<Rightarrow> int \<Rightarrow> (error + string) \<times> generator" where
  "generate cls g mnemonic user_id derivation_index =
     (case derive_seed cls mnemonic user_id of
        Inl e \<Rightarrow> (Inl e, g)
      | Inr seed \<Rightarrow>
          (case get_derivation_path g derivation_index of
             (path, g1) \<Rightarrow>
               (case generate_address cls seed path of
                  Inl e \<Rightarrow> (Inl e, g1)
                | Inr address \<Rightarrow>
                    (case validate_address cls address of
                       Inl e \<Rightarrow> (Inl e, g1)
                     | Inr ok \<Rightarrow>
                         if \<not> ok
                         then (Inl (WalletGenerationException (GeneratedInvalidAddress address)), g1)
                         else (Inr address, g1)))))"

text \<open>
  A generator after a list of earlier \<^verbatim>\<open>generate\<close> calls, each given by its three
  arguments.
\<close>

fun after_calls :: "generator_class \<Rightarrow> generator \<Rightarrow> (string \<times> string \<times> int) list \<Rightarrow> generator" where
  "after_calls cls g [] = g"
| "after_calls cls g ((m, u, i) # cs) = after_calls cls (snd (generate cls g m u i)) cs"

text \<open>
  \<^verbatim>\<open>ethereum_generator.py\<close>. The libraries are arguments: \<^verbatim>\<open>hashlib.sha256\<close>,
  \<^verbatim>\<open>Account.from_key(k).address\<close> and \<^verbatim>\<open>to_checksum_address\<close>.
  \<^verbatim>\<open>
  derived_key = hashlib.sha256(seed + path.encode()).digest()
  account = Account.from_key(derived_key)
  return to_checksum_address(account.address)
  \<close>
  and \<^verbatim>\<open>validate_address\<close> is \<^verbatim>\<open>address == to_checksum_address(address)\<close>.
\<close>

record eth_lib =
  mnemonic_to_seed :: "string \<Rightarrow> string \<Rightarrow> error + bytes"
  sha256_digest :: "bytes \<Rightarrow> bytes"
  account_from_key :: "bytes \<Rightarrow> error + string"
  to_checksum_address :: "string \<Rightarrow> error + string"

definition encode :: "string \<Rightarrow> bytes" where
  "encode s = map of_char s"

definition EthereumWalletGenerator :: "eth_lib \<Rightarrow> generator_class" where
  "EthereumWalletGenerator lib =
     \<lparr>to_seed = mnemonic_to_seed lib,
      generate_address = (\<lambda>seed path.
         case account_from_key lib (sha256_digest lib (seed @ encode path)) of
           Inl e \<Rightarrow> Inl e
         | Inr address \<Rightarrow> to_checksum_address lib address),
      validate_address = (\<lambda>address.
         case to_checksum_address lib address of
           Inl e \<Rightarrow> Inl e
         | Inr checksummed \<Rightarrow> Inr (address = checksummed))\<rparr>"

text \<open>The base paths the three generator classes pass to the base constructor.\<close>

fun base_path :: "network_type \<Rightarrow> string" where
  "base_path ETHEREUM = ''m/44'' @ [CHR 0x27] @ ''/60'' @ [CHR 0x27] @ ''/0'' @ [CHR 0x27] @ ''/0''"
| "base_path BITCOIN = ''m/44'' @ [CHR 0x27] @ ''/0'' @ [CHR 0x27] @ ''/0'' @ [CHR 0x27] @ ''/0''"
| "base_path TRON = ''m/44'' @ [CHR 0x27] @ ''/195'' @ [CHR 0x27] @ ''/0'' @ [CHR 0x27] @ ''/0''"

section \<open>Wallet service: the state of the process\<close>

text \<open>
  One cache object holds the wallets (\<^verbatim>\<open>wallet:{user}:{network}\<close>) and the allocator's
  counters (\<^verbatim>\<open>next_index:{network}\<close>), so a stored value is a wallet or an integer.
  The state of the process: the cache's dict, the table, the factory's
  \<^verbatim>\<open>_generators\<close>, the handler's \<^verbatim>\<open>_processed_events\<close> and the publish tasks started
  with \<^verbatim>\<open>asyncio.create_task\<close>.
\<close>

datatype cache_value = IntVal int | WalletVal wallet

record world =
  cache :: "cache_value store"
  wallets :: "wallet_model list"
  generators :: "network_type \<rightharpoonup> generator"
  processed_events :: "string set"
  publish_tasks :: "wallet list"

text \<open>
  What one call observes of its environment: \<^verbatim>\<open>time.time()\<close>, \<^verbatim>\<open>datetime.now()\<close> and
  the \<^verbatim>\<open>uuid4()\<close> of a new row.
\<close>

record env =
  now :: real
  today :: datetime
  fresh_uuid :: uuid

section \<open>Wallet service: the generator factory and the index allocator\<close>

text \<open>
  \<^verbatim>\<open>WalletGeneratorFactory.get_generator\<close>: the generator of a network is created on
  first use and kept in \<^verbatim>\<open>_generators\<close>. Every member of the enum has a class, so
  \<^verbatim>\<open>InvalidNetworkException\<close> is not raised.
\<close>

definition get_generator :: "network_type \<Rightarrow> world \<Rightarrow> generator \<times> world" where
  "get_generator network w =
     (case generators w network of
        Some g \<Rightarrow> (g, w)
      | None \<Rightarrow>
          (let g = BaseWalletGenerator (base_path network)
           in (g, w\<lparr>generators := (generators w)(network \<mapsto> g)\<rparr>)))"

text \<open>
  \<^verbatim>\<open>wallet_service/services/derivation_service.py\<close>:
  \<^verbatim>\<open>
  cache_key = f"next_index:{network}"
  cached_index = await self.cache.get(cache_key)
  if cached_index is not None:
      next_index = cached_index + 1
      await self.cache.set(cache_key, next_index)
      return cached_index
  next_index = await self.repository.get_next_derivation_index(network)
  await self.cache.set(cache_key, next_index + 1)
  return next_index
  \<close>
  \<^verbatim>\<open>cached_index + 1\<close> raises \<^verbatim>\<open>TypeError\<close> on a cached wallet.
\<close>

definition get_next_index :: "settings \<Rightarrow> real \<Rightarrow> string \<Rightarrow> world \<Rightarrow> (error + int) \<times> world" where
  "get_next_index cfg t network w =
     (let cache_key = ''next_index:'' @ network in
      case cache_get cfg t cache_key (cache w) of
        (Some (IntVal cached_index), st) \<Rightarrow>
          (Inr cached_index,
           w\<lparr>cache := cache_set cfg t cache_key (IntVal (cached_index + 1)) None st\<rparr>)
      | (Some (WalletVal _), st) \<Rightarrow> (Inl TypeError, w\<lparr>cache := st\<rparr>)
      | (None, st) \<Rightarrow>
          (let next_index = get_next_derivation_index network (wallets w)
           in (Inr next_index,
               w\<lparr>cache := cache_set cfg t cache_key (IntVal (next_index + 1)) None st\<rparr>)))"

text \<open>
  Successive calls of \<^verbatim>\<open>get_next_index\<close> for one network in one process. Each call is
  given by its clock time and by the rows the table holds at that moment (other parts
  of the process may insert rows between two calls); the cache is carried from call to
  call. The result is the list of the indices returned, up to the first failure.
\<close>

fun next_indices :: "settings \<Rightarrow> string \<Rightarrow> (real \<times> wallet_model list) list \<Rightarrow> world \<Rightarrow> int list" where
  "next_indices cfg network [] w = []"
| "next_indices cfg network ((t, rows) # calls) w =
     (case get_next_index cfg t network (w\<lparr>wallets := rows\<rparr>) of
        (Inl e, w1) \<Rightarrow> []
      | (Inr i, w1) \<Rightarrow> i # next_indices cfg network calls w1)"

text \<open>
  No cache entry of the allocator expires between two successive calls: a call comes
  at most \<open>ttl\<close> seconds after the one before it.
\<close>

fun no_expiry_between :: "real \<Rightarrow> real list \<Rightarrow> bool" where
  "no_expiry_between ttl [] = True"
| "no_expiry_between ttl [t] = True"
| "no_expiry_between ttl (t # t1 # ts) = (t1 - t \<le> ttl \<and> no_expiry_between ttl (t1 # ts))"

section \<open>Wallet service: creating a wallet\<close>

text \<open>
  \<^verbatim>\<open>WalletService._generate_wallet\<close>. \<open>classes\<close> gives the generator class of each
  network. The allocator is called with the network string as received, the enum
  lookup with its lower-cased form.
\<close>

definition generate_wallet ::
  "settings \<Rightarrow> env \<Rightarrow> (network_type \<Rightarrow> generator_class) \<Rightarrow> string \<Rightarrow> string \<Rightarrow> world
     \<Rightarrow> (error + wallet) \<times> world" where
  "generate_wallet cfg ev classes user_id network w =
     (case NetworkType (lower network) of
        Inl e \<Rightarrow> (Inl e, w)
      | Inr network_type \<Rightarrow>
          (case get_generator network_type w of
             (g, w1) \<Rightarrow>
               (case get_next_index cfg (now ev) network w1 of
                  (Inl e, w2) \<Rightarrow> (Inl e, w2)
                | (Inr derivation_index, w2) \<Rightarrow>
                    (case generate (classes network_type) g (decrypted_mnemonic cfg) user_id
                            derivation_index of
                       (r, g1) \<Rightarrow>
                         (let w3 = w2\<lparr>generators := (generators w2)(network_type \<mapsto> g1)\<rparr> in
                          case r of
                            Inl e \<Rightarrow> (Inl e, w3)
                          | Inr address \<Rightarrow>
                              (case Wallet user_id network_type address derivation_index (today ev) of
                                 Inl e \<Rightarrow> (Inl e, w3)
                               | Inr wallet \<Rightarrow> (Inr wallet, w3)))))))"

text \<open>
  \<^verbatim>\<open>WalletService.create_wallet\<close>. The cache and repository lookups stand before the
  \<^verbatim>\<open>try\<close>, so their exceptions propagate as they are; every exception raised inside
  the \<^verbatim>\<open>try\<close> (by \<^verbatim>\<open>_generate_wallet\<close> or by \<^verbatim>\<open>repository.create\<close>) is caught by
  \<^verbatim>\<open>except Exception as e\<close> and replaced by
  \<^verbatim>\<open>WalletGenerationException(f"Failed to generate wallet: {e!s}")\<close>.
  \<^verbatim>\<open>if cached_wallet:\<close> holds for every wallet object; a non-zero integer under the
  wallet's key would be returned as it is and fail at the caller's first attribute
  access, which is the \<open>AttributeError\<close> here.
\<close>

definition create_wallet ::
  "settings \<Rightarrow> env \<Rightarrow> (network_type \<Rightarrow> generator_class) \<Rightarrow> string \<Rightarrow> string \<Rightarrow> world
     \<Rightarrow> (error + wallet) \<times> world" where
  "create_wallet cfg ev classes user_id network w =
     (let cache_key = ''wallet:'' @ user_id @ '':'' @ network in
      case cache_get cfg (now ev) cache_key (cache w) of
        (Some (WalletVal cached_wallet), st) \<Rightarrow> (Inr cached_wallet, w\<lparr>cache := st\<rparr>)
      | (cached, st) \<Rightarrow>
          if (case cached of Some (IntVal i) \<Rightarrow> i \<noteq> 0 | _ \<Rightarrow> False)
          then (Inl AttributeError, w\<lparr>cache := st\<rparr>)
          else
            (let w1 = w\<lparr>cache := st\<rparr> in
             case get_by_user_and_network user_id network (wallets w1) of
               Inl e \<Rightarrow> (Inl e, w1)
             | Inr (Some existing) \<Rightarrow>
                 (Inr existing,
                  w1\<lparr>cache := cache_set cfg (now ev) cache_key (WalletVal existing) None (cache w1)\<rparr>)
             | Inr None \<Rightarrow>
                 (case generate_wallet cfg ev classes user_id network w1 of
                    (Inl e, w2) \<Rightarrow> (Inl (WalletGenerationException (FailedToGenerateWallet e)), w2)
                  | (Inr wallet, w2) \<Rightarrow>
                      (case create (fresh_uuid ev) wallet (wallets w2) of
                         Inl e \<Rightarrow> (Inl (WalletGenerationException (FailedToGenerateWallet e)), w2)
                       | Inr (wallet1, rows) \<Rightarrow>
                           (Inr wallet1,
                            w2\<lparr>wallets := rows,
                               cache := cache_set cfg (now ev) cache_key (WalletVal wallet1) None (cache w2),
                               publish_tasks := publish_tasks w2 @ [wallet1]\<rparr>)))))"

section \<open>Wallet service: the event and its handler\<close>

text \<open>
  \<^verbatim>\<open>wallet_service/domain/schemas/events.py\<close>:
  \<^verbatim>\<open>
  class UserVerifiedEvent(BaseModel):
      event: str
      user_id: str
      network: str
      timestamp: datetime | None = None
  \<close>
\<close>

record user_verified_event =
  e_event :: string
  e_user_id :: string
  e_network :: string
  e_timestamp :: "datetime option"

text \<open>
  The value of a Kafka message after \<^verbatim>\<open>json.loads\<close>: a dict from field names to JSON
  values, or something that is not a dict. \<open>JOther\<close> is a JSON list or object.
\<close>

datatype json = JNull | JBool bool | JNumber real | JStr string | JOther




text \<open>
  \<^verbatim>\<open>event_key = f"{event.user_id}:{event.network}:{event.timestamp}"\<close>; an f-string
  prints \<^verbatim>\<open>None\<close> as "None".
\<close>

definition event_key :: "user_verified_event \<Rightarrow> string" where
  "event_key event =
     e_user_id event @ '':'' @ e_network event @ '':'' @
     (case e_timestamp event of None \<Rightarrow> ''None'' | Some ts \<Rightarrow> str_datetime ts)"

text \<open>
  The trimming step of the handler:
  \<^verbatim>\<open>
  if len(self._processed_events) > 10000:
      self._processed_events = set(list(self._processed_events)[-5000:])
  \<close>
  \<^verbatim>\<open>_processed_events\<close> is a Python \<^verbatim>\<open>set\<close>. \<open>list_of\<close> is the order in which
  \<^verbatim>\<open>list(...)\<close> iterates over it: the order of the hash table, which the set does not
  promise to be any order in particular.
\<close>

definition trim :: "(string set \<Rightarrow> string list) \<Rightarrow> string set \<Rightarrow> string set" where
  "trim list_of s =
     (if card s > 10000
      then (let l = list_of s in set (drop (length l - 5000) l))
      else s)"

text \<open>
  The block of \<^verbatim>\<open>handle_user_verified\<close> under \<^verbatim>\<open>self._event_lock\<close>, on the set alone:
  whether the key is a duplicate, and the set afterwards.
  \<^verbatim>\<open>
  if event_key in self._processed_events:
      return
  self._processed_events.add(event_key)
  if len(self._processed_events) > 10000:
      self._processed_events = set(list(self._processed_events)[-5000:])
  \<close>
\<close>

definition record_event :: "(string set \<Rightarrow> string list) \<Rightarrow> string \<Rightarrow> string set \<Rightarrow> bool \<times> string set" where
  "record_event list_of key s =
     (if key \<in> s then (True, s) else (False, trim list_of (insert key s)))"

text \<open>
  \<^verbatim>\<open>EventHandler.handle_user_verified\<close>. A duplicate returns at once. Otherwise
  \<^verbatim>\<open>create_wallet\<close> is called with the key recorded;
  \<^verbatim>\<open>except WalletAlreadyExistsException\<close> returns normally, \<^verbatim>\<open>except Exception\<close>
  discards the key and raises again.
\<close>

definition handle_user_verified ::
  "settings \<Rightarrow> env \<Rightarrow> (network_type \<Rightarrow> generator_class) \<Rightarrow> (string set \<Rightarrow> string list)
     \<Rightarrow> user_verified_event \<Rightarrow> world \<Rightarrow> (error + unit) \<times> world" where
  "handle_user_verified cfg ev classes list_of event w =
     (case record_event list_of (event_key event) (processed_events w) of
        (True, s) \<Rightarrow> (Inr (), w)
      | (False, s) \<Rightarrow>
          (case create_wallet cfg ev classes (e_user_id event) (e_network event)
                  (w\<lparr>processed_events := s\<rparr>) of
             (Inr wallet, w2) \<Rightarrow> (Inr (), w2)
           | (Inl WalletAlreadyExistsException, w2) \<Rightarrow> (Inr (), w2)
           | (Inl e, w2) \<Rightarrow>
               (Inl e, w2\<lparr>processed_events := processed_events w2 - {event_key event}\<rparr>)))"



section \<open>Verification service\<close>

text \<open>
  \<^verbatim>\<open>user_verification_service/src/domain/models/verification.py\<close>: the status enum with
  its lookup by value, and the dataclass \<^verbatim>\<open>UserVerification\<close>.
\<close>

datatype verification_status = PENDING | VERIFIED | FAILED

fun status_value :: "verification_status \<Rightarrow> string" where
  "status_value PENDING = ''pending''"
| "status_value VERIFIED = ''verified''"
| "status_value FAILED = ''failed''"

definition VerificationStatus :: "string \<Rightarrow> error + verification_status" where
  "VerificationStatus s =
     (if s = ''pending'' then Inr PENDING
      else if s = ''verified'' then Inr VERIFIED
      else if s = ''failed'' then Inr FAILED
      else Inl (ValueError (NotAValidVerificationStatus s)))"

record user_verification =
  v_user_id :: string
  v_network :: network_type
  v_document_hash :: string
  v_id :: "uuid option"
  v_status :: verification_status
  v_verified_at :: "datetime option"
  v_created_at :: datetime

text \<open>
  \<^verbatim>\<open>UserVerification.verify\<close>: \<^verbatim>\<open>self.status = VERIFIED; self.verified_at = datetime.now()\<close>.
\<close>

definition verify :: "datetime \<Rightarrow> user_verification \<Rightarrow> user_verification" where
  "verify t v = v\<lparr>v_status := VERIFIED, v_verified_at := Some t\<rparr>"

text \<open>
  \<^verbatim>\<open>infrastructure/database/models.py\<close>: a row of the table \<^verbatim>\<open>verifications\<close>; \<^verbatim>\<open>id\<close>
  is the primary key and the only constraint.
\<close>

record verification_model =
  vm_id :: uuid
  vm_user_id :: string
  vm_network :: string
  vm_document_hash :: string
  vm_status :: string
  vm_verified_at :: "datetime option"
  vm_created_at :: datetime

text \<open>
  The state of the service: the table, the calls made on the repository so far (what
  the tests of the service read off their mock repository), and the publish tasks
  started with \<^verbatim>\<open>asyncio.create_task\<close>.
\<close>

datatype repository_call =
    GetByUserAndNetwork string string
  | Save user_verification
  | UpdateStatus "uuid option" verification_status

record verification_world =
  verifications :: "verification_model list"
  repository_calls :: "repository_call list"
  event_tasks :: "user_verification list"

text \<open>
  \<^verbatim>\<open>max_document_size_mb\<close> of the service's \<^verbatim>\<open>Settings\<close>, and what one call observes of
  its environment: \<^verbatim>\<open>hashlib.sha256(...).hexdigest()\<close>, the two \<^verbatim>\<open>datetime.now()\<close> and
  the \<^verbatim>\<open>uuid4()\<close> of a new row.
\<close>

record verification_settings =
  max_document_size_mb :: int

record verification_env =
  sha256_hexdigest :: "bytes \<Rightarrow> string"
  created_now :: datetime
  verified_now :: datetime
  new_uuid :: uuid

text \<open>\<^verbatim>\<open>VerificationRepository._to_domain\<close>.\<close>

definition verification_to_domain :: "verification_model \<Rightarrow> error + user_verification" where
  "verification_to_domain db_verification =
     (case NetworkType (vm_network db_verification) of
        Inl e \<Rightarrow> Inl e
      | Inr nt \<Rightarrow>
          (case VerificationStatus (vm_status db_verification) of
             Inl e \<Rightarrow> Inl e
           | Inr st \<Rightarrow>
               Inr \<lparr>v_user_id = vm_user_id db_verification, v_network = nt,
                    v_document_hash = vm_document_hash db_verification,
                    v_id = Some (vm_id db_verification), v_status = st,
                    v_verified_at = vm_verified_at db_verification,
                    v_created_at = vm_created_at db_verification\<rparr>))"

text \<open>
  \<^verbatim>\<open>VerificationRepository.get_by_user_and_network\<close>, with \<^verbatim>\<open>scalar_one_or_none()\<close>
  raising when more than one row matches.
\<close>

definition verification_get_by_user_and_network ::
  "string \<Rightarrow> string \<Rightarrow> verification_world \<Rightarrow> (error + user_verification option) \<times> verification_world" where
  "verification_get_by_user_and_network user_id network w =
     (let w1 = w\<lparr>repository_calls := repository_calls w @ [GetByUserAndNetwork user_id network]\<rparr> in
      case filter (\<lambda>r. vm_user_id r = user_id \<and> vm_network r = network) (verifications w) of
        [] \<Rightarrow> (Inr None, w1)
      | [db_verification] \<Rightarrow>
          (case verification_to_domain db_verification of
             Inl e \<Rightarrow> (Inl e, w1)
           | Inr v \<Rightarrow> (Inr (Some v), w1))
      | _ \<Rightarrow> (Inl MultipleResultsFound, w1))"

text \<open>\<^verbatim>\<open>VerificationRepository.save\<close>: the flush raises on a primary key already in the table.\<close>

definition save :: "uuid \<Rightarrow> user_verification \<Rightarrow> verification_world \<Rightarrow> (error + user_verification) \<times> verification_world" where
  "save new_id verification w =
     (let w1 = w\<lparr>repository_calls := repository_calls w @ [Save verification]\<rparr> in
      if list_ex (\<lambda>r. vm_id r = new_id) (verifications w) then (Inl IntegrityError, w1)
      else
        (Inr (verification\<lparr>v_id := Some new_id\<rparr>),
         w1\<lparr>verifications := verifications w @
               [\<lparr>vm_id = new_id, vm_user_id = v_user_id verification,
                  vm_network = network_value (v_network verification),
                  vm_document_hash = v_document_hash verification,
                  vm_status = status_value (v_status verification),
                  vm_verified_at = v_verified_at verification,
                  vm_created_at = v_created_at verification\<rparr>]\<rparr>))"

text \<open>
  \<^verbatim>\<open>VerificationRepository.update_status\<close>: an \<^verbatim>\<open>UPDATE ... WHERE id = :id\<close>, which
  matches no row when the id is null.
\<close>

definition update_status :: "uuid option \<Rightarrow> verification_status \<Rightarrow> verification_world \<Rightarrow> verification_world" where
  "update_status verification_id status w =
     w\<lparr>repository_calls := repository_calls w @ [UpdateStatus verification_id status],
       verifications :=
         map (\<lambda>r. if Some (vm_id r) = verification_id then r\<lparr>vm_status := status_value status\<rparr> else r)
           (verifications w)\<rparr>"

text \<open>
  \<^verbatim>\<open>VerificationService.verify_user\<close>, from the construction of the new
  \<^verbatim>\<open>UserVerification\<close> on:
  \<^verbatim>\<open>
  verification = UserVerification(user_id=user_id, network=NetworkType(network),
                                  document_hash=hashlib.sha256(document_data).hexdigest())
  verification = await self.repository.save(verification)
  await asyncio.sleep(self.settings.verification_delay_seconds)
  verification.verify()
  await self.repository.update_status(verification.id, verification.status)
  asyncio.create_task(self._publish_event(verification))
  return verification
  \<close>
\<close>

definition verify_new ::
  "verification_env \<Rightarrow> string \<Rightarrow> string \<Rightarrow> bytes \<Rightarrow> verification_world
     \<Rightarrow> (error + user_verification) \<times> verification_world" where
  "verify_new ev user_id network document_data w =
     (case NetworkType network of
        Inl e \<Rightarrow> (Inl e, w)
      | Inr nt \<Rightarrow>
          (case save (new_uuid ev)
                  \<lparr>v_user_id = user_id, v_network = nt,
                   v_document_hash = sha256_hexdigest ev document_data, v_id = None,
                   v_status = PENDING, v_verified_at = None, v_created_at = created_now ev\<rparr> w of
             (Inl e, w1) \<Rightarrow> (Inl e, w1)
           | (Inr saved, w1) \<Rightarrow>
               (let verified = verify (verified_now ev) saved;
                    w2 = update_status (v_id verified) (v_status verified) w1
                in (Inr verified, w2\<lparr>event_tasks := event_tasks w2 @ [verified]\<rparr>))))"

text \<open>
  \<^verbatim>\<open>VerificationService.verify_user\<close>. The argument \<open>decoded\<close> is the outcome of
  \<^verbatim>\<open>base64.b64decode(document_base64)\<close>: the bytes, or the exception it raises.
  \<^verbatim>\<open>
  document_data = base64.b64decode(document_base64)
  if len(document_data) > self.settings.max_document_size_mb * 1024 * 1024:
      raise ValueError("Document too large")
  existing = await self.repository.get_by_user_and_network(user_id, network)
  if existing and existing.status == VerificationStatus.VERIFIED:
      return existing
  \<close>
\<close>

definition verify_user ::
  "verification_settings \<Rightarrow> verification_env \<Rightarrow> string \<Rightarrow> string \<Rightarrow> error + bytes
     \<Rightarrow> verification_world \<Rightarrow> (error + user_verification) \<times> verification_world" where
  "verify_user cfg ev user_id network decoded w =
     (case decoded of
        Inl e \<Rightarrow> (Inl e, w)
      | Inr document_data \<Rightarrow>
          if int (length document_data) > max_document_size_mb cfg * 1024 * 1024
          then (Inl (ValueError DocumentTooLarge), w)
          else
            (case verification_get_by_user_and_network user_id network w of
               (Inl e, w1) \<Rightarrow> (Inl e, w1)
             | (Inr None, w1) \<Rightarrow> verify_new ev user_id network document_data w1
             | (Inr (Some existing), w1) \<Rightarrow>
                 if v_status existing = VERIFIED then (Inr existing, w1)
                 else verify_new ev user_id network document_data w1))"

text \<open>Example inputs of the verification service.\<close>

definition example_verification_env :: verification_env where
  "example_verification_env =
     \<lparr>sha256_hexdigest = (\<lambda>data. ''2cf24dba5fb0a30e26e83b2ac5b9e29e1b161e5c1fa7425e73043362938b9824''),
      created_now = Datetime ''2024-01-01 00:00:00'',
      verified_now = Datetime ''2024-01-01 00:00:03'',
      new_uuid = 7\<rparr>"

definition empty_verification_world :: verification_world where
  "empty_verification_world = \<lparr>verifications = [], repository_calls = [], event_tasks = []\<rparr>"



definition one_mebibyte_settings :: verification_settings where
  "one_mebibyte_settings = \<lparr>max_document_size_mb = 1\<rparr>"

text \<open>A document of \<open>k\<close> zero bytes.\<close>

definition document_of_size :: "nat \<Rightarrow> bytes" where
  "document_of_size k = replicate k 0"


section \<open>Wallet service: the state a process starts from\<close>

text \<open>The defaults of \<^verbatim>\<open>Settings\<close> in \<^verbatim>\<open>wallet_service/core/config.py\<close>.\<close>

definition default_settings :: settings where
  "default_settings =
     \<lparr>cache_key_prefix = ''wallet:'', cache_ttl_seconds = 3600,
      decrypted_mnemonic =
        ''abandon abandon abandon abandon abandon abandon abandon abandon abandon abandon abandon about''\<rparr>"

text \<open>
  A process that has just started on an empty table: the constructors leave the cache,
  the factory and the handler's set empty.
\<close>

definition initial_world :: world where
  "initial_world =
     \<lparr>cache = Map.empty, wallets = [], generators = Map.empty, processed_events = {},
      publish_tasks = []\<rparr>"

text \<open>The expiry \<^verbatim>\<open>CacheService.set\<close> computes at time \<open>t\<close> when no \<^verbatim>\<open>ttl\<close> is passed.\<close>

definition index_expiry :: "settings \<Rightarrow> real \<Rightarrow> real" where
  "index_expiry cfg t =
     (if cache_ttl_seconds cfg \<noteq> 0 then t + real_of_int (cache_ttl_seconds cfg) else 0)"

text \<open>
  What every generator object satisfies: an entry of \<^verbatim>\<open>_path_cache\<close> is the path the
  f-string builds for its index.
\<close>

definition path_cache_ok :: "generator \<Rightarrow> bool" where
  "path_cache_ok g =
     (\<forall>i p. path_cache g i = Some p \<longrightarrow> p = base_derivation_path g @ ''/'' @ str_int i)"

section \<open>Example inputs\<close>

text \<open>Reading a decimal string back as a number, the inverse of \<open>str_nat\<close>.\<close>

definition digit_value :: "char \<Rightarrow> nat" where
  "digit_value c =
     (case map_of (zip ''0123456789'' [0, 1, 2, 3, 4, 5, 6, 7, 8, 9]) c of
        Some d \<Rightarrow> d
      | None \<Rightarrow> 0)"

definition nat_of_str :: "string \<Rightarrow> nat" where
  "nat_of_str s = foldl (\<lambda>a c. 10 * a + digit_value c) 0 s"

text \<open>
  The \<^verbatim>\<open>user.verified\<close> event of the user whose id is the number \<open>n\<close>, without a
  timestamp, and its key in \<^verbatim>\<open>_processed_events\<close>.
\<close>

definition nth_event :: "nat \<Rightarrow> user_verified_event" where
  "nth_event n =
     \<lparr>e_event = ''user.verified'', e_user_id = str_nat n, e_network = ''ethereum'',
      e_timestamp = None\<rparr>"

definition nth_key :: "nat \<Rightarrow> string" where
  "nth_key n = event_key (nth_event n)"


text \<open>
  A stand-in for a library-backed generator class: every call succeeds and yields one
  fixed, well-formed Ethereum address.
\<close>

definition example_class :: generator_class where
  "example_class =
     \<lparr>to_seed = (\<lambda>mnemonic passphrase. Inr (encode passphrase)),
      generate_address = (\<lambda>seed path. Inr ''0x52908400098527886E0F7030069857D2E4169EE7''),
      validate_address = (\<lambda>address. Inr True)\<rparr>"

definition example_env :: env where
  "example_env = \<lparr>now = 1000, today = Datetime ''2024-01-02 00:00:00'', fresh_uuid = 2\<rparr>"

text \<open>
  A process on a table that already holds the wallet of user u1 on "ethereum", with
  derivation index 0 and the address the generator yields for it.
\<close>

definition world_with_wallet :: world where
  "world_with_wallet =
     \<lparr>cache = Map.empty,
      wallets = [\<lparr>m_id = 1, m_user_id = ''u1'', m_network = ''ethereum'',
                  m_wallet_address = ''0x52908400098527886E0F7030069857D2E4169EE7'',
                  m_derivation_index = 0, m_created_at = Datetime ''2024-01-01 00:00:00'',
                  m_last_accessed_at = None\<rparr>],
      generators = Map.empty, processed_events = {}, publish_tasks = []\<rparr>"

text \<open>The event of the same user with the network written in upper case.\<close>

definition upper_case_event :: user_verified_event where
  "upper_case_event =
     \<lparr>e_event = ''user.verified'', e_user_id = ''u1'', e_network = ''ETHEREUM'',
      e_timestamp = None\<rparr>"


section \<open>Properties of the cache\<close>



section \<open>Properties of the index allocator\<close>

lemma get_next_index_seed:
  assumes "cache w (prefixed cfg (''next_index:'' @ network)) = None"
  shows "\<exists>w1. get_next_index cfg t network (w\<lparr>wallets := rows\<rparr>) =
            (Inr (get_next_derivation_index network rows), w1) \<and>
          cache w1 (prefixed cfg (''next_index:'' @ network)) =
            Some (index_expiry cfg t, IntVal (get_next_derivation_index network rows + 1))"
  using assms
  by (simp add: get_next_index_def cache_get_def cache_set_def Let_def index_expiry_def)

lemma get_next_index_cached:
  assumes "cache w (prefixed cfg (''next_index:'' @ network)) = Some (index_expiry cfg t0, IntVal c)"
      and "t - t0 \<le> real_of_int (cache_ttl_seconds cfg)"
  shows "\<exists>w1. get_next_index cfg t network (w\<lparr>wallets := rows\<rparr>) = (Inr c, w1) \<and>
          cache w1 (prefixed cfg (''next_index:'' @ network)) =
            Some (index_expiry cfg t, IntVal (c + 1))"
  using assms
  by (auto simp add: get_next_index_def cache_get_def cache_set_def Let_def index_expiry_def)

lemma next_indices_cached:
  assumes "cache w (prefixed cfg (''next_index:'' @ network)) = Some (index_expiry cfg t0, IntVal c)"
      and "no_expiry_between (real_of_int (cache_ttl_seconds cfg)) (t0 # map fst calls)"
  shows "next_indices cfg network calls w = map (\<lambda>k. c + int k) [0..<length calls]"
  using assms
proof (induction calls arbitrary: w t0 c)
  case Nil
  then show ?case by simp
next
  case (Cons call calls)
  obtain t rows where call: "call = (t, rows)" by (cases call)
  from Cons.prems(2) call have gap: "t - t0 \<le> real_of_int (cache_ttl_seconds cfg)"
    and rest: "no_expiry_between (real_of_int (cache_ttl_seconds cfg)) (t # map fst calls)"
    by simp_all
  from get_next_index_cached [OF Cons.prems(1) gap, of rows]
  obtain w1 where step: "get_next_index cfg t network (w\<lparr>wallets := rows\<rparr>) = (Inr c, w1)"
    and c1: "cache w1 (prefixed cfg (''next_index:'' @ network)) = Some (index_expiry cfg t, IntVal (c + 1))"
    by blast
  have "next_indices cfg network calls w1 = map (\<lambda>k. (c + 1) + int k) [0..<length calls]"
    by (rule Cons.IH [OF c1 rest])
  then show ?case
    using step call by (simp add: upt_rec [of 0] map_Suc_upt [symmetric] del: upt_Suc) 
qed


lemma fold_max_nonneg: "(0::int) \<le> x \<Longrightarrow> 0 \<le> fold max xs x"
  by (induction xs arbitrary: x) auto

lemma get_next_derivation_index_nonneg:
  "list_all (\<lambda>r. 0 \<le> m_derivation_index r) rows \<Longrightarrow> 0 \<le> get_next_derivation_index network rows"
proof -
  assume a: "list_all (\<lambda>r. 0 \<le> m_derivation_index r) rows"
  show ?thesis
  proof (cases "map m_derivation_index (filter (\<lambda>r. m_network r = network) rows)")
    case Nil
    then show ?thesis by (simp add: get_next_derivation_index_def)
  next
    case (Cons x xs)
    then have "x \<in> set (map m_derivation_index (filter (\<lambda>r. m_network r = network) rows))" by simp
    with a have "0 \<le> x" by (auto simp: list_all_iff)
    then have "0 \<le> fold max xs x" by (rule fold_max_nonneg)
    with Cons show ?thesis by (simp add: get_next_derivation_index_def)
  qed
qed

lemma consecutive_increasing: "sorted_wrt (<) (map (\<lambda>k. base + int k) [0..<n])"
  by (auto simp: sorted_wrt_map sorted_wrt_iff_nth_less)

lemma consecutive_Cons:
  "base # map (\<lambda>k. (base + 1) + int k) [0..<n] = map (\<lambda>k. base + int k) [0..<Suc n]"
  by (simp add: upt_rec [of 0] map_Suc_upt [symmetric] del: upt_Suc)

text \<open>
  Claim C3, as amended. In a process whose cache holds no \<^verbatim>\<open>next_index\<close> entry for the
  network yet, over a table whose derivation indices are not negative, successive calls
  of \<^verbatim>\<open>get_next_index(network)\<close> that each come at most \<^verbatim>\<open>cache_ttl_seconds\<close> after the
  one before (so that the cached counter has not expired) all succeed and return
  strictly increasing, non-negative integers.
\<close>

theorem next_indices_strictly_increasing:
  assumes fresh: "cache w (prefixed cfg (''next_index:'' @ network)) = None"
      and gaps: "no_expiry_between (real_of_int (cache_ttl_seconds cfg)) (map fst calls)"
      and rows: "list_all (\<lambda>call. list_all (\<lambda>r. 0 \<le> m_derivation_index r) (snd call)) calls"
  shows "length (next_indices cfg network calls w) = length calls \<and>
         sorted_wrt (<) (next_indices cfg network calls w) \<and>
         list_all (\<lambda>i. 0 \<le> i) (next_indices cfg network calls w)"
proof (cases calls)
  case Nil
  then show ?thesis by simp
next
  case (Cons call rest)
  obtain t rs where call: "call = (t, rs)" by (cases call)
  define base where "base = get_next_derivation_index network rs"
  from get_next_index_seed [OF fresh, of t rs]
  obtain w1 where step: "get_next_index cfg t network (w\<lparr>wallets := rs\<rparr>) = (Inr base, w1)"
    and c1: "cache w1 (prefixed cfg (''next_index:'' @ network)) = Some (index_expiry cfg t, IntVal (base + 1))"
    unfolding base_def by blast
  from gaps Cons call
  have "no_expiry_between (real_of_int (cache_ttl_seconds cfg)) (t # map fst rest)" by simp
  from next_indices_cached [OF c1 this]
  have tl: "next_indices cfg network rest w1 = map (\<lambda>k. (base + 1) + int k) [0..<length rest]" .
  have all: "next_indices cfg network calls w = map (\<lambda>k. base + int k) [0..<Suc (length rest)]"
    using Cons call step tl by (simp only: next_indices.simps prod.case sum.case consecutive_Cons)
  from rows Cons call have "0 \<le> base"
    unfolding base_def by (simp add: get_next_derivation_index_nonneg)
  then have "list_all (\<lambda>i. 0 \<le> i) (map (\<lambda>k. base + int k) [0..<Suc (length rest)])"
    by (simp add: list_all_iff)
  then show ?thesis
    unfolding all using Cons consecutive_increasing [of base "Suc (length rest)"]
    by simp
qed

theorem next_indices_strictly_increasing_witness:
  "cache initial_world (prefixed default_settings (''next_index:'' @ ''ethereum'')) = None \<and>
   no_expiry_between (real_of_int (cache_ttl_seconds default_settings)) (map fst [(1000, []), (2000, []), (5600, [])]) \<and>
   list_all (\<lambda>call. list_all (\<lambda>r. 0 \<le> m_derivation_index r) (snd call)) [(1000::real, []), (2000, []), (5600, [])] \<and>
   next_indices default_settings ''ethereum'' [(1000, []), (2000, []), (5600, [])] initial_world = [0, 1, 2] \<and>
   sorted_wrt (<) (next_indices default_settings ''ethereum'' [(1000, []), (2000, []), (5600, [])] initial_world)"
  using next_indices_strictly_increasing [of initial_world default_settings "''ethereum''" "[(1000, []), (2000, []), (5600, [])]"]
  by (simp add: initial_world_def default_settings_def get_next_index_def cache_get_def cache_set_def
        prefixed_def get_next_derivation_index_def Let_def)

text \<open>
  The claim as stated, with an expiry between two calls: on an empty table with the
  default settings, a call at time 1000 returns 0 and caches 1 until 4600; a call at
  time 5000 finds the entry expired, seeds from the still empty table and returns 0
  again.
\<close>

theorem next_index_repeats_after_expiry:
  "next_indices default_settings ''ethereum'' [(1000, []), (5000, [])] initial_world = [0, 0] \<and>
   \<not> sorted_wrt (<) (next_indices default_settings ''ethereum'' [(1000, []), (5000, [])] initial_world)"
  by (simp add: initial_world_def default_settings_def get_next_index_def cache_get_def cache_set_def
        prefixed_def get_next_derivation_index_def Let_def)

section \<open>Properties of the wallet constructor\<close>

text \<open>
  Claim C4, as amended. A successfully constructed \<^verbatim>\<open>Wallet\<close> keeps the network and the
  address it was given, and the address has the prefix and the length of its network:
  ETHEREUM starts with "0x" and has length 42, TRON starts with "T" and has length 34,
  BITCOIN has a length from 26 to 35. The constructor rejects, with \<^verbatim>\<open>ValueError\<close>, every
  address that violates the prefix or length rule of its network.
\<close>

theorem Wallet_checks_prefix_and_length:
  "(\<forall>w. Wallet u n a i d = Inr w \<longrightarrow>
      w_network w = n \<and> w_wallet_address w = a \<and>
      (case n of
         ETHEREUM \<Rightarrow> take 2 a = ''0x'' \<and> length a = 42
       | TRON \<Rightarrow> take 1 a = ''T'' \<and> length a = 34
       | BITCOIN \<Rightarrow> 26 \<le> length a \<and> length a \<le> 35)) \<and>
   (\<not> (case n of
         ETHEREUM \<Rightarrow> take 2 a = ''0x'' \<and> length a = 42
       | TRON \<Rightarrow> take 1 a = ''T'' \<and> length a = 34
       | BITCOIN \<Rightarrow> 26 \<le> length a \<and> length a \<le> 35) \<longrightarrow>
      Wallet u n a i d = Inl (ValueError (InvalidAddressFormat n)))"
  by (cases n)
     (auto simp: Wallet_def validate_ethereum_address_def validate_tron_address_def
        validate_bitcoin_address_def split: if_splits)

theorem Wallet_checks_prefix_and_length_witness:
  "Wallet ''u1'' ETHEREUM ''0x52908400098527886E0F7030069857D2E4169EE7'' 0 (Datetime ''2024-01-01 00:00:00'') =
     Inr \<lparr>w_user_id = ''u1'', w_network = ETHEREUM,
          w_wallet_address = ''0x52908400098527886E0F7030069857D2E4169EE7'', w_derivation_index = 0,
          w_id = None, w_created_at = Datetime ''2024-01-01 00:00:00'', w_last_accessed_at = None\<rparr> \<and>
   take 2 ''0x52908400098527886E0F7030069857D2E4169EE7'' = ''0x'' \<and>
   length ''0x52908400098527886E0F7030069857D2E4169EE7'' = 42 \<and>
   \<not> (take 1 ''0x5290'' = ''T'' \<and> length ''0x5290'' = 34) \<and>
   Wallet ''u1'' TRON ''0x5290'' 0 (Datetime ''2024-01-01 00:00:00'') = Inl (ValueError (InvalidAddressFormat TRON))"
  using Wallet_checks_prefix_and_length [of "''u1''" ETHEREUM "''0x52908400098527886E0F7030069857D2E4169EE7''" 0 "Datetime ''2024-01-01 00:00:00''"]
        Wallet_checks_prefix_and_length [of "''u1''" TRON "''0x5290''" 0 "Datetime ''2024-01-01 00:00:00''"]
  by (simp add: Wallet_def validate_ethereum_address_def)

text \<open>
  The claim as stated: the constructor accepts an ETHEREUM address of "0x" and forty
  times the letter z, which is not made of hex characters.
\<close>

theorem Wallet_accepts_non_hex_address:
  "Wallet ''u1'' ETHEREUM ''0xzzzzzzzzzzzzzzzzzzzzzzzzzzzzzzzzzzzzzzzz'' 0 (Datetime ''2024-01-01 00:00:00'') =
     Inr \<lparr>w_user_id = ''u1'', w_network = ETHEREUM,
          w_wallet_address = ''0xzzzzzzzzzzzzzzzzzzzzzzzzzzzzzzzzzzzzzzzz'', w_derivation_index = 0,
          w_id = None, w_created_at = Datetime ''2024-01-01 00:00:00'', w_last_accessed_at = None\<rparr> \<and>
   \<not> spec_ethereum_hex_rule ''0xzzzzzzzzzzzzzzzzzzzzzzzzzzzzzzzzzzzzzzzz''"
  by (simp add: Wallet_def validate_ethereum_address_def spec_ethereum_hex_rule_def is_hex_char_def)

section \<open>Properties of the generators\<close>

lemma get_derivation_path_ok:
  assumes "path_cache_ok g"
  shows "fst (get_derivation_path g i) = base_derivation_path g @ ''/'' @ str_int i"
    and "path_cache_ok (snd (get_derivation_path g i))"
    and "base_derivation_path (snd (get_derivation_path g i)) = base_derivation_path g"
  using assms
  by (auto simp: get_derivation_path_def path_cache_ok_def Let_def split: option.splits)

lemma generate_ok:
  assumes "path_cache_ok g"
  shows "path_cache_ok (snd (generate cls g m u i))"
    and "base_derivation_path (snd (generate cls g m u i)) = base_derivation_path g"
  using get_derivation_path_ok(2,3) [OF assms, of i] assms
  by (auto simp: generate_def split: sum.splits prod.splits)

lemma generate_same_result:
  assumes "path_cache_ok g1" and "path_cache_ok g2"
      and "base_derivation_path g1 = base_derivation_path g2"
  shows "fst (generate cls g1 m u i) = fst (generate cls g2 m u i)"
  using get_derivation_path_ok(1) [OF assms(1), of i] get_derivation_path_ok(1) [OF assms(2), of i] assms(3)
  by (auto simp: generate_def split: sum.splits prod.splits)

lemma after_calls_ok:
  assumes "path_cache_ok g"
  shows "path_cache_ok (after_calls cls g cs) \<and>
         base_derivation_path (after_calls cls g cs) = base_derivation_path g"
  using assms
proof (induction cs arbitrary: g)
  case Nil
  then show ?case by simp
next
  case (Cons c cs)
  obtain m u i where c: "c = (m, u, i)" by (cases c)
  from Cons.IH [OF generate_ok(1) [OF Cons.prems, of cls m u i]] generate_ok(2) [OF Cons.prems, of cls m u i]
  show ?case unfolding c by simp
qed

lemma BaseWalletGenerator_ok: "path_cache_ok (BaseWalletGenerator base)"
  by (simp add: path_cache_ok_def BaseWalletGenerator_def)

lemma ethereum_generate_same_result:
  "fst (generate (EthereumWalletGenerator lib)
          (after_calls (EthereumWalletGenerator lib) (BaseWalletGenerator (base_path ETHEREUM)) earlier)
          m u i) =
   fst (generate (EthereumWalletGenerator lib) (BaseWalletGenerator (base_path ETHEREUM)) m u i)"
  by (rule generate_same_result) (simp_all add: after_calls_ok BaseWalletGenerator_ok)

text \<open>
  Claim C9. Wallet generation is deterministic: on a generator object (created with
  its base path, then used for any earlier calls), two calls of
  \<^verbatim>\<open>generate(m, u, i)\<close> return the same result, an address or an error, whatever calls
  came before each of them. The path memo \<^verbatim>\<open>_path_cache\<close> is the only state of the
  generator, and the libraries are functions of their arguments.
\<close>

theorem generate_deterministic:
  "fst (generate cls (after_calls cls (BaseWalletGenerator base) earlier1) m u i) =
   fst (generate cls (after_calls cls (BaseWalletGenerator base) earlier2) m u i)"
proof -
  note ok = after_calls_ok [OF BaseWalletGenerator_ok]
  show ?thesis
    by (rule generate_same_result) (simp_all add: ok)
qed

section \<open>Properties of the event handler\<close>

lemma digit_value_nth: "d < 10 \<Longrightarrow> digit_value (''0123456789'' ! d) = d"
proof -
  assume "d < 10"
  then have "d \<in> set [0..<10]" by simp
  then show ?thesis by (auto simp: upt_rec digit_value_def)
qed

lemma nat_of_str_str_nat: "nat_of_str (str_nat n) = n"
proof (induction n rule: str_nat.induct)
  case (1 n)
  show ?case
  proof (cases "n < 10")
    case True
    then show ?thesis
      by (subst str_nat.simps) (simp add: nat_of_str_def digit_value_nth)
  next
    case False
    with 1 have ih: "nat_of_str (str_nat (n div 10)) = n div 10" by simp
    have "nat_of_str (str_nat n) =
            10 * nat_of_str (str_nat (n div 10)) + digit_value (''0123456789'' ! (n mod 10))"
      using False by (subst str_nat.simps) (simp add: nat_of_str_def)
    also have "\<dots> = 10 * (n div 10) + n mod 10"
      by (simp add: ih digit_value_nth)
    finally show ?thesis by simp
  qed
qed

lemma inj_nth_key: "inj nth_key"
proof (rule injI)
  fix m n assume "nth_key m = nth_key n"
  then have "str_nat m = str_nat n"
    by (simp add: nth_key_def nth_event_def event_key_def)
  then have "nat_of_str (str_nat m) = nat_of_str (str_nat n)" by simp
  then show "m = n" by (simp only: nat_of_str_str_nat)
qed

lemma nth_key_eq [simp]: "nth_key m = nth_key n \<longleftrightarrow> m = n"
  using inj_nth_key by (auto dest: injD)




















text \<open>
  Claim C1. When \<^verbatim>\<open>repository.create\<close> hits the unique constraint inside
  \<^verbatim>\<open>create_wallet\<close>, the handler should return normally and keep the key. The code at
  the event of user u1 on "ETHEREUM", over a table that holds the wallet of u1 on
  "ethereum": the lookup by the upper-case network finds nothing, the allocator starts
  at 0 for "ETHEREUM", the generator yields the stored address again, the insert
  violates the unique \<^verbatim>\<open>wallet_address\<close>, \<^verbatim>\<open>create_wallet\<close> wraps the error in
  \<^verbatim>\<open>WalletGenerationException\<close>, and the handler raises it and discards the key.
\<close>

theorem handler_raises_on_unique_violation:
  "fst (handle_user_verified default_settings example_env (\<lambda>network. example_class) list_of
          upper_case_event world_with_wallet) =
     Inl (WalletGenerationException (FailedToGenerateWallet IntegrityError)) \<and>
   processed_events (snd (handle_user_verified default_settings example_env (\<lambda>network. example_class)
          list_of upper_case_event world_with_wallet)) = {}"
proof -
  have key: "event_key upper_case_event = ''u1:ETHEREUM:None''"
    by (simp add: event_key_def upper_case_event_def)
  have rec: "record_event list_of ''u1:ETHEREUM:None'' {} = (False, {''u1:ETHEREUM:None''})"
    by (simp add: record_event_def trim_def)
  have low: "NetworkType (lower ''ETHEREUM'') = Inr ETHEREUM"
    by (simp add: NetworkType_def lower_def lower_char_def)
  have idx: "get_next_derivation_index ''ETHEREUM'' (wallets world_with_wallet) = 0"
    by (simp add: get_next_derivation_index_def world_with_wallet_def)
  have gen: "fst (generate example_class (BaseWalletGenerator (base_path ETHEREUM))
                (decrypted_mnemonic default_settings) ''u1'' 0) =
             Inr ''0x52908400098527886E0F7030069857D2E4169EE7''"
    by (simp add: generate_def derive_seed_def example_class_def get_derivation_path_def
          BaseWalletGenerator_def Let_def)
  have cw: "create_wallet default_settings example_env (\<lambda>network. example_class) ''u1'' ''ETHEREUM''
              (world_with_wallet\<lparr>processed_events := {''u1:ETHEREUM:None''}\<rparr>) =
            (Inl (WalletGenerationException (FailedToGenerateWallet IntegrityError)),
             world_with_wallet
               \<lparr>processed_events := {''u1:ETHEREUM:None''},
                cache := [''wallet:next_index:ETHEREUM'' \<mapsto> (4600, IntVal 1)],
                generators := [ETHEREUM \<mapsto>
                   \<lparr>base_derivation_path = base_path ETHEREUM,
                    path_cache = [0 \<mapsto> base_path ETHEREUM @ ''/0'']\<rparr>]\<rparr>)"
    using low idx
    by (simp add: create_wallet_def generate_wallet_def get_generator_def get_next_index_def
          cache_get_def cache_set_def get_by_user_and_network_def create_def Wallet_def
          validate_ethereum_address_def world_with_wallet_def default_settings_def example_env_def
          prefixed_def Let_def generate_def derive_seed_def example_class_def
          get_derivation_path_def BaseWalletGenerator_def str_int_def str_nat.simps)
  have ue: "e_user_id upper_case_event = ''u1''" "e_network upper_case_event = ''ETHEREUM''"
    by (simp_all add: upper_case_event_def)
  have pe: "processed_events world_with_wallet = {}"
    by (simp add: world_with_wallet_def)
  show ?thesis
    by (simp add: handle_user_verified_def key rec cw ue pe)
qed

lemma to_domain_error: "to_domain r = Inl e \<Longrightarrow> \<exists>v. e = ValueError v"
  by (auto simp: to_domain_def NetworkType_def Wallet_def
        split: sum.splits if_splits network_type.splits)

lemma get_by_user_and_network_error:
  "get_by_user_and_network u n rows = Inl e \<Longrightarrow> e \<noteq> WalletAlreadyExistsException"
  by (auto simp: get_by_user_and_network_def split: list.splits sum.splits dest: to_domain_error)

lemma create_wallet_never_already_exists:
  "fst (create_wallet cfg ev classes u n w) \<noteq> Inl WalletAlreadyExistsException"
  by (auto simp: create_wallet_def Let_def
        split: prod.splits option.splits sum.splits cache_value.splits if_splits
        dest: get_by_user_and_network_error)

section \<open>Properties of the consumer\<close>



section \<open>Properties of the verification service\<close>

lemma get_verification_calls:
  "repository_calls (snd (verification_get_by_user_and_network u n w)) =
     repository_calls w @ [GetByUserAndNetwork u n] \<and>
   verifications (snd (verification_get_by_user_and_network u n w)) = verifications w \<and>
   event_tasks (snd (verification_get_by_user_and_network u n w)) = event_tasks w"
  by (simp add: verification_get_by_user_and_network_def Let_def split: list.splits sum.splits)


lemma verification_to_domain_error:
  "verification_to_domain r = Inl e \<Longrightarrow>
     e = ValueError (NotAValidNetworkType (vm_network r)) \<or>
     e = ValueError (NotAValidVerificationStatus (vm_status r))"
  by (auto simp: verification_to_domain_def NetworkType_def VerificationStatus_def
        split: sum.splits if_splits)

lemma get_verification_error:
  "fst (verification_get_by_user_and_network u n w) = Inl e \<Longrightarrow> e \<noteq> ValueError DocumentTooLarge"
  by (auto simp: verification_get_by_user_and_network_def Let_def
        split: list.splits sum.splits dest: verification_to_domain_error)

lemma verify_new_calls:
  "\<exists>rest. repository_calls (snd (verify_new ev u n data w)) = repository_calls w @ rest"
  by (auto simp: verify_new_def save_def update_status_def Let_def split: sum.splits prod.splits if_splits)

lemma verify_new_error:
  "fst (verify_new ev u n data w) \<noteq> Inl (ValueError DocumentTooLarge)"
  by (auto simp: verify_new_def save_def NetworkType_def Let_def split: sum.splits prod.splits if_splits)



text \<open>
  Claim C7. \<^verbatim>\<open>verify_user\<close> accepts a document whose decoded size is exactly
  \<^verbatim>\<open>max_document_size_mb * 1024 * 1024\<close> bytes: it does not raise "Document too large"
  and goes on to the repository lookup. A document one byte larger is rejected with
  \<^verbatim>\<open>ValueError("Document too large")\<close>, the state untouched.
\<close>

theorem document_size_boundary:
  "(int (length data) = max_document_size_mb cfg * 1024 * 1024 \<longrightarrow>
      fst (verify_user cfg ev u n (Inr data) w) \<noteq> Inl (ValueError DocumentTooLarge) \<and>
      (\<exists>rest. repository_calls (snd (verify_user cfg ev u n (Inr data) w)) =
                repository_calls w @ GetByUserAndNetwork u n # rest)) \<and>
   (int (length data) = max_document_size_mb cfg * 1024 * 1024 + 1 \<longrightarrow>
      verify_user cfg ev u n (Inr data) w = (Inl (ValueError DocumentTooLarge), w))"
proof (intro conjI impI)
  assume eq: "int (length data) = max_document_size_mb cfg * 1024 * 1024"
  obtain r w1 where g: "verification_get_by_user_and_network u n w = (r, w1)"
    by (cases "verification_get_by_user_and_network u n w")
  have calls: "repository_calls w1 = repository_calls w @ [GetByUserAndNetwork u n]"
    using get_verification_calls [of u n w] g by simp
  have rerr: "\<And>e. r = Inl e \<Longrightarrow> e \<noteq> ValueError DocumentTooLarge"
    using get_verification_error [of u n w] g by simp
  obtain rest where rest: "repository_calls (snd (verify_new ev u n data w1)) = repository_calls w1 @ rest"
    using verify_new_calls [of ev u n data w1] by blast
  show "fst (verify_user cfg ev u n (Inr data) w) \<noteq> Inl (ValueError DocumentTooLarge)"
    using eq g rerr verify_new_error [of ev u n data w1]
    by (auto simp: verify_user_def split: sum.splits option.splits)
  show "\<exists>rest. repository_calls (snd (verify_user cfg ev u n (Inr data) w)) =
                repository_calls w @ GetByUserAndNetwork u n # rest"
    using eq g calls rest
    by (auto simp: verify_user_def split: sum.splits option.splits)
next
  assume "int (length data) = max_document_size_mb cfg * 1024 * 1024 + 1"
  then show "verify_user cfg ev u n (Inr data) w = (Inl (ValueError DocumentTooLarge), w)"
    by (simp add: verify_user_def)
qed


lemma length_document_of_size: "length (document_of_size k) = k"
  by (simp add: document_of_size_def)

theorem document_size_boundary_witness:
  "int (length (document_of_size 1048576)) = max_document_size_mb one_mebibyte_settings * 1024 * 1024 \<and>
   fst (verify_user one_mebibyte_settings example_verification_env ''u1'' ''ethereum''
          (Inr (document_of_size 1048576)) empty_verification_world) \<noteq> Inl (ValueError DocumentTooLarge) \<and>
   int (length (document_of_size 1048577)) = max_document_size_mb one_mebibyte_settings * 1024 * 1024 + 1 \<and>
   verify_user one_mebibyte_settings example_verification_env ''u1'' ''ethereum''
     (Inr (document_of_size 1048577)) empty_verification_world =
       (Inl (ValueError DocumentTooLarge), empty_verification_world)"
proof -
  have h1: "int (length (document_of_size 1048576)) = max_document_size_mb one_mebibyte_settings * 1024 * 1024"
    by (simp add: length_document_of_size one_mebibyte_settings_def)
  have h2: "int (length (document_of_size 1048577)) = max_document_size_mb one_mebibyte_settings * 1024 * 1024 + 1"
    by (simp add: length_document_of_size one_mebibyte_settings_def)
  from document_size_boundary [of "document_of_size 1048576" one_mebibyte_settings
      example_verification_env "''u1''" "''ethereum''" empty_verification_world] h1
  have c1: "fst (verify_user one_mebibyte_settings example_verification_env ''u1'' ''ethereum''
          (Inr (document_of_size 1048576)) empty_verification_world) \<noteq> Inl (ValueError DocumentTooLarge)"
    by blast
  from document_size_boundary [of "document_of_size 1048577" one_mebibyte_settings
      example_verification_env "''u1''" "''ethereum''" empty_verification_world] h2
  have c2: "verify_user one_mebibyte_settings example_verification_env ''u1'' ''ethereum''
     (Inr (document_of_size 1048577)) empty_verification_world =
       (Inl (ValueError DocumentTooLarge), empty_verification_world)"
    by blast
  from h1 c1 h2 c2 show ?thesis by blast
qed






end
